theory Spec2Isabelle
  imports Complex_Main
begin

section \<open>Python values, errors and list helpers\<close>

text \<open>
  The exceptions the procedures can raise. \<open>InstrumentError\<close> stands for any exception
  coming out of the instrument driver. Python floats are modelled as exact reals.
\<close>

datatype error =
    RuntimeError string
  | ValueError string
  | TypeError string
  | ZeroDivisionError
  | AttributeError string
  | OverflowError string
  | InstrumentError string

text \<open>Python's \<open>xs[i:]\<close> and \<open>xs[:j]\<close>: a negative bound counts from the end,
  and every bound is clipped to the list.\<close>

definition slice_from :: "int \<Rightarrow> 'a list \<Rightarrow> 'a list" where
  "slice_from i xs =
     (let n = int (length xs);
          start = (if i < 0 then max 0 (n + i) else min i n)
      in drop (nat start) xs)"

definition slice_to :: "int \<Rightarrow> 'a list \<Rightarrow> 'a list" where
  "slice_to j xs =
     (let n = int (length xs);
          stop = (if j < 0 then max 0 (n + j) else min j n)
      in take (nat stop) xs)"

text \<open>\<open>list.index\<close>: the first position of a value, \<open>ValueError\<close> when it is absent.\<close>

fun index_from :: "nat \<Rightarrow> 'a \<Rightarrow> 'a list \<Rightarrow> error + nat" where
  "index_from k x [] = Inl (ValueError ''value is not in list'')"
| "index_from k x (y # ys) = (if x = y then Inr k else index_from (Suc k) x ys)"

definition index_of :: "'a \<Rightarrow> 'a list \<Rightarrow> error + nat" where
  "index_of x xs = index_from 0 x xs"

text \<open>\<open>str.split( ',' )\<close>: one field more than there are commas.\<close>

fun split_comma :: "string \<Rightarrow> string list" where
  "split_comma [] = [[]]"
| "split_comma (c # cs) =
     (if c = CHR '','' then [] # split_comma cs
      else (case split_comma cs of [] \<Rightarrow> [[c]] | f # fs \<Rightarrow> (c # f) # fs))"

text \<open>numpy's \<open>mean\<close> of a one-dimensional array. For an empty array numpy gives
  \<open>nan\<close> (with a warning, no exception); the reals have no such value and the model
  gives 0 there, so statements about means are made for non-empty windows.\<close>

definition mean :: "real list \<Rightarrow> real" where
  "mean xs = (if xs = [] then 0 else sum_list xs / real (length xs))"

text \<open>Entry \<open>j\<close> of \<open>data.mean( axis = 0 )\<close>: the mean of column \<open>j\<close>. It is
  only read at an index below the number of columns.\<close>

definition column_mean :: "nat \<Rightarrow> real list list \<Rightarrow> real" where
  "column_mean j data = mean (map (\<lambda>row. row ! j) data)"

text \<open>numpy's \<open>std\<close> (population standard deviation, \<open>ddof = 0\<close>).\<close>

definition std :: "real list \<Rightarrow> real" where
  "std xs = sqrt (mean (map (\<lambda>x. (x - mean xs)\<^sup>2) xs))"

text \<open>\<open>str.strip()\<close>, \<open>str.lower()\<close> and \<open>','.join\<close> on ASCII strings.\<close>

definition is_space :: "char \<Rightarrow> bool" where
  "is_space c = (c \<in> set [CHR '' '', CHR 0x09, CHR 0x0A, CHR 0x0B, CHR 0x0C, CHR 0x0D])"

definition strip :: "string \<Rightarrow> string" where
  "strip s = rev (dropWhile is_space (rev (dropWhile is_space s)))"

definition lower_char :: "char \<Rightarrow> char" where
  "lower_char c =
     (let n = (of_char c :: nat) in if 65 \<le> n \<and> n \<le> 90 then char_of (n + 32) else c)"

definition lower :: "string \<Rightarrow> string" where
  "lower s = map lower_char s"

fun join_comma :: "string list \<Rightarrow> string" where
  "join_comma [] = []"
| "join_comma [x] = x"
| "join_comma (x # y # ys) = x @ '','' @ join_comma (y # ys)"

text \<open>\<open>data.prod( axis = 1 )\<close>: the product of all the entries of each row.\<close>

definition row_products :: "real list list \<Rightarrow> real list" where
  "row_products data = map prod_list data"

text \<open>\<open>data.reshape( rows, cols )\<close> in row-major order: entry \<open>(i, j)\<close> is the flat
  entry \<open>i * cols + j\<close>.\<close>

definition reshape :: "nat \<Rightarrow> nat \<Rightarrow> 'a list \<Rightarrow> 'a list list" where
  "reshape rows cols xs = map (\<lambda>i. take cols (drop (i * cols) xs)) [0..<rows]"

section \<open>Sample buffer formatter\<close>

text \<open>
  \<open>Keithley2400_Procedure.format_data\<close> on a flat numeric sequence. The first argument
  is the value of the \<open>elements\<close> property: \<open>None\<close> when the elements have not been
  queried (then \<open>len\<close> raises \<open>TypeError\<close>), and an empty list makes the division
  raise \<open>ZeroDivisionError\<close>.
\<close>

definition format_data :: "string list option \<Rightarrow> real list \<Rightarrow> error + real list list" where
  "format_data elms data =
     (case elms of
        None \<Rightarrow> Inl (TypeError ''object of type NoneType has no len()'')
      | Some els \<Rightarrow>
          (let cols = length els in
           if cols = 0 then Inl ZeroDivisionError
           else if length data mod cols \<noteq> 0
             then Inl (ValueError ''Invalid data length. Data is not divisible by number of elements.'')
           else Inr (reshape (length data div cols) cols data)))"

section \<open>JV sweep controller\<close>

text \<open>The step that \<open>JVScan_Procedure.startup\<close> writes to \<open>:source:voltage:step\<close>.\<close>

definition effective_step :: "real \<Rightarrow> real \<Rightarrow> real \<Rightarrow> real" where
  "effective_step start_voltage end_voltage voltage_step =
     (if (start_voltage > end_voltage \<and> voltage_step > 0) \<or>
         (start_voltage < end_voltage \<and> voltage_step < 0)
      then voltage_step * (- 1)
      else voltage_step)"

section \<open>Run orchestrator\<close>

text \<open>
  The rounding of the measured Voc in \<open>main\<close>, over exact rationals. The measured
  Voc is a numpy float, so a division by a zero step raises nothing: it gives an
  infinity, or \<open>nan\<close> for a zero Voc, and it is the conversion by \<open>math.ceil\<close> or
  \<open>math.floor\<close> that raises, \<open>OverflowError\<close> on an infinity and \<open>ValueError\<close> on
  \<open>nan\<close>.
\<close>

definition round_end_voc :: "rat \<Rightarrow> rat \<Rightarrow> error + rat" where
  "round_end_voc voc_measured voltage_step =
     (if voltage_step = 0 then
        (if voc_measured = 0 then Inl (ValueError ''cannot convert float NaN to integer'')
         else Inl (OverflowError ''cannot convert float infinity to integer''))
      else
        (let end_voc = voc_measured / voltage_step;
             end_voc' = (if end_voc > 0 then \<lceil>end_voc\<rceil> else \<lfloor>end_voc\<rfloor>)
         in Inr (of_int end_voc' * voltage_step)))"

section \<open>Procedure state, environment and effects\<close>

text \<open>
  What a procedure does to the outside is logged as a trace of events: the calls on the
  instrument, every poll of the stop signal with its answer, every sleep and every
  emitted result record.
\<close>

datatype event =
    Reset
  | UseFrontTerminals
  | UseRearTerminals
  | ApplyVoltage "real option" real
  | ApplyCurrent real
  | MeasureVoltage
  | EnableSource
  | SetSourceVoltage real
  | SetSourceCurrent real
  | WriteCmd string
  | AskCmd string
  | ConfigBuffer int
  | StartBuffer
  | WaitForBuffer
  | ReadBuffer
  | InstrumentShutdown
  | ShouldStop bool
  | Sleep real
  | Emit "real list"

text \<open>
  The attributes of a procedure object (\<open>None\<close>: the attribute has not been set), the
  source voltage held by the instrument, how many answers of the environment have been
  consumed, and the trace.
\<close>

record state =
  attr_instrument :: "string option"
  attr_elements :: "string list option"
  attr_start_time :: "real option"
  attr_end_time :: "real option"
  attr_last_probe_time :: "real option"
  source_voltage :: real
  time_calls :: nat
  stop_calls :: nat
  acq_calls :: nat
  trace :: "event list"

text \<open>One buffer acquisition as the instrument answers it: which of the three commands
  fail, and what reading \<open>buffer_data\<close> gives.\<close>

record acquisition =
  config_buffer_r :: "error option"
  start_buffer_r :: "error option"
  wait_for_buffer_r :: "error option"
  buffer_data_r :: "error + real list"

text \<open>
  The environment of a run: the successive readings of \<open>time.time()\<close>, the successive
  answers of \<open>should_stop()\<close>, the successive buffer acquisitions, and the instrument's
  reply to \<open>:format:elements?\<close>. Instrument calls other than the buffer acquisition are
  taken to succeed, and a source voltage that was written is read back unchanged.
\<close>

record env =
  clock :: "nat \<Rightarrow> real"
  stop_signal :: "nat \<Rightarrow> bool"
  acquisitions :: "nat \<Rightarrow> acquisition"
  elements_reply :: string

text \<open>
  A method is a function from the state to an outcome and the new state. The outcome
  \<open>None\<close> means that a loop was cut by its iteration bound (the fuel of the model);
  \<open>Some (Inl e)\<close> is the exception \<open>e\<close>, \<open>Some (Inr a)\<close> the returned value.
\<close>

type_synonym 'a M = "state \<Rightarrow> (error + 'a) option \<times> state"

definition returnM :: "'a \<Rightarrow> 'a M" where
  "returnM a s = (Some (Inr a), s)"

definition raiseM :: "error \<Rightarrow> 'a M" where
  "raiseM e s = (Some (Inl e), s)"

definition out_of_fuel :: "'a M" where
  "out_of_fuel s = (None, s)"

definition bindM :: "'a M \<Rightarrow> ('a \<Rightarrow> 'b M) \<Rightarrow> 'b M" where
  "bindM m f s =
     (case m s of
        (Some (Inr a), s') \<Rightarrow> f a s'
      | (Some (Inl e), s') \<Rightarrow> (Some (Inl e), s')
      | (None, s') \<Rightarrow> (None, s'))"

text \<open>\<open>try: m except Exception as err: h err\<close>.\<close>

definition try_except :: "'a M \<Rightarrow> (error \<Rightarrow> 'a M) \<Rightarrow> 'a M" where
  "try_except m h s =
     (case m s of
        (Some (Inl e), s') \<Rightarrow> h e s'
      | other \<Rightarrow> other)"

definition liftE :: "error + 'a \<Rightarrow> 'a M" where
  "liftE r = (case r of Inl e \<Rightarrow> raiseM e | Inr a \<Rightarrow> returnM a)"

definition log_event :: "event \<Rightarrow> unit M" where
  "log_event ev s = (Some (Inr ()), s\<lparr>trace := trace s @ [ev]\<rparr>)"

definition time_time :: "env \<Rightarrow> real M" where
  "time_time E s = (Some (Inr (clock E (time_calls s))), s\<lparr>time_calls := Suc (time_calls s)\<rparr>)"

definition time_sleep :: "real \<Rightarrow> unit M" where
  "time_sleep secs =
     (if secs < 0 then raiseM (ValueError ''sleep length must be non-negative'')
      else log_event (Sleep secs))"

definition should_stop :: "env \<Rightarrow> bool M" where
  "should_stop E s =
     (let b = stop_signal E (stop_calls s)
      in (Some (Inr b), s\<lparr>stop_calls := Suc (stop_calls s), trace := trace s @ [ShouldStop b]\<rparr>))"

definition next_acquisition :: "env \<Rightarrow> acquisition M" where
  "next_acquisition E s =
     (Some (Inr (acquisitions E (acq_calls s))), s\<lparr>acq_calls := Suc (acq_calls s)\<rparr>)"

section \<open>Keithley2400\_Procedure\<close>

record base_params =
  port :: "string option"
  use_front_terminals :: bool

text \<open>The properties \<open>instrument\<close> and \<open>elements\<close>: the attribute, or \<open>None\<close> when
  reading it raises \<open>AttributeError\<close>.\<close>

definition instrument :: "state \<Rightarrow> string option" where
  "instrument s = (case attr_instrument s of Some i \<Rightarrow> Some i | None \<Rightarrow> None)"

definition elements :: "state \<Rightarrow> string list option" where
  "elements s = (case attr_elements s of Some els \<Rightarrow> Some els | None \<Rightarrow> None)"

text \<open>A method call \<open>self.instrument.f( ... )\<close>: \<open>AttributeError\<close> when the instrument
  is \<open>None\<close>; otherwise the call is logged and raises what the instrument answers.\<close>

definition instrument_call :: "event \<Rightarrow> error option \<Rightarrow> unit M" where
  "instrument_call ev r s =
     (case instrument s of
        None \<Rightarrow> raiseM (AttributeError ''NoneType object has no attribute'') s
      | Some i \<Rightarrow>
          bindM (log_event ev) (\<lambda>_. case r of None \<Rightarrow> returnM () | Some e \<Rightarrow> raiseM e) s)"

definition instrument_read :: "event \<Rightarrow> error + 'a \<Rightarrow> 'a M" where
  "instrument_read ev r s =
     (case instrument s of
        None \<Rightarrow> raiseM (AttributeError ''NoneType object has no attribute'') s
      | Some i \<Rightarrow> bindM (log_event ev) (\<lambda>_. liftE r) s)"

definition get_source_voltage :: "real M" where
  "get_source_voltage s =
     (case instrument s of
        None \<Rightarrow> raiseM (AttributeError ''NoneType object has no attribute'') s
      | Some i \<Rightarrow> returnM (source_voltage s) s)"

definition set_source_voltage :: "real \<Rightarrow> unit M" where
  "set_source_voltage v s =
     (case instrument s of
        None \<Rightarrow> raiseM (AttributeError ''NoneType object has no attribute'') s
      | Some i \<Rightarrow> (Some (Inr ()), s\<lparr>source_voltage := v, trace := trace s @ [SetSourceVoltage v]\<rparr>))"

definition startup :: "'a base_params_scheme \<Rightarrow> unit M" where
  "startup cfg =
     (case port cfg of
        None \<Rightarrow> raiseM (RuntimeError ''Port has not been set.'')
      | Some p \<Rightarrow>
          bindM (\<lambda>s. (Some (Inr ()), s\<lparr>attr_instrument := Some p\<rparr>)) (\<lambda>_.
          bindM (instrument_call Reset None) (\<lambda>_.
          if use_front_terminals cfg then instrument_call UseFrontTerminals None
          else instrument_call UseRearTerminals None)))"

text \<open>\<open>shutdown\<close>: the instrument is shut down only when there is one.\<close>

definition shutdown :: "unit M" where
  "shutdown s =
     (case instrument s of
        Some i \<Rightarrow> log_event InstrumentShutdown s
      | None \<Rightarrow> returnM () s)"

definition get_elements :: "env \<Rightarrow> string list M" where
  "get_elements E =
     bindM (instrument_read (AskCmd '':format:elements?'') (Inr (elements_reply E))) (\<lambda>reply.
     returnM (split_comma (strip reply)))"

definition valid_elms :: "string list" where
  "valid_elms = [''time'', ''voltage'', ''current'', ''resistance'', ''status'']"

definition set_elements :: "env \<Rightarrow> string list \<Rightarrow> unit M" where
  "set_elements E elms =
     (if \<not> list_all (\<lambda>elm. lower elm \<in> set valid_elms) elms
      then raiseM (ValueError ''Invalid element.'')
      else
        bindM (instrument_call (WriteCmd ('':format:elements '' @ join_comma elms)) None) (\<lambda>_.
        bindM (get_elements E) (\<lambda>els.
        (\<lambda>s. (Some (Inr ()), s\<lparr>attr_elements := Some els\<rparr>)))))"

text \<open>\<open>format_data\<close> as a method: the element list is read from the object.\<close>

definition format_dataM :: "real list \<Rightarrow> real list list M" where
  "format_dataM data s = liftE (format_data (elements s) data) s"

text \<open>\<open>self.elements.index( name )\<close>.\<close>

definition elements_index :: "string \<Rightarrow> nat M" where
  "elements_index name s =
     (case elements s of
        None \<Rightarrow> raiseM (AttributeError ''NoneType object has no attribute index'') s
      | Some els \<Rightarrow> liftE (index_of name els) s)"

text \<open>\<open>wait_for\<close>: the loop polls the stop signal once per slice. The first argument
  bounds the number of slices.\<close>

primrec wait_loop :: "nat \<Rightarrow> env \<Rightarrow> real \<Rightarrow> real \<Rightarrow> unit M" where
  "wait_loop 0 E end_t interval = out_of_fuel"
| "wait_loop (Suc n) E end_t interval =
     bindM (time_time E) (\<lambda>now.
       if now < end_t then
         bindM (should_stop E) (\<lambda>stop.
           if stop then
             bindM shutdown (\<lambda>_. raiseM (RuntimeError ''Procedure stopped by user.''))
           else
             bindM (time_sleep interval) (\<lambda>_. wait_loop n E end_t interval))
       else returnM ())"

definition wait_for :: "nat \<Rightarrow> env \<Rightarrow> real \<Rightarrow> real \<Rightarrow> unit M" where
  "wait_for fuel E seconds interval =
     bindM (time_time E) (\<lambda>now. wait_loop fuel E (now + seconds) interval)"

text \<open>The timing properties, written alike in \<open>MPPTracking_Procedure\<close> and
  \<open>Voc_Procedure\<close>.\<close>

definition start_time :: "state \<Rightarrow> real option" where
  "start_time s = (case attr_start_time s of Some t \<Rightarrow> Some t | None \<Rightarrow> None)"

definition end_time :: "state \<Rightarrow> real option" where
  "end_time s = (case attr_end_time s of Some t \<Rightarrow> Some t | None \<Rightarrow> None)"

definition time_elapsed :: "env \<Rightarrow> real M" where
  "time_elapsed E s =
     (case start_time s of
        None \<Rightarrow> returnM 0 s
      | Some t0 \<Rightarrow> bindM (time_time E) (\<lambda>now. returnM (now - t0)) s)"

section \<open>MPPTracking\_Procedure\<close>

record mpp_params = base_params +
  run_time :: real
  probe_step :: real
  voltage_range :: real
  compliance_current :: real
  initial_voltage :: real
  buffer_points :: int
  probe_points :: int
  probe_interval :: int
  data_interval :: int
  power_production_mode :: bool

text \<open>The summarized sample of one acquisition cycle (the dictionary returned by
  \<open>_measure_datum\<close>).\<close>

record datum =
  d_time :: real
  d_voltage :: real
  d_current :: real
  d_power :: real

definition mpp_progress :: "env \<Rightarrow> mpp_params \<Rightarrow> real M" where
  "mpp_progress E cfg s =
     (case start_time s of
        None \<Rightarrow> returnM 0 s
      | Some t0 \<Rightarrow>
          bindM (time_elapsed E) (\<lambda>te.
            if run_time cfg * 60 = 0 then raiseM ZeroDivisionError
            else returnM (min (te / (run_time cfg * 60)) 1)) s)"

definition mpp_startup :: "env \<Rightarrow> mpp_params \<Rightarrow> unit M" where
  "mpp_startup E cfg =
     bindM (startup cfg) (\<lambda>_.
     bindM (instrument_call (ApplyVoltage (Some (voltage_range cfg)) (compliance_current cfg)) None) (\<lambda>_.
     bindM (set_elements E [''time'', ''voltage'', ''current'']) (\<lambda>_.
     time_sleep (1 / 10))))"

definition mpp_measure :: "env \<Rightarrow> mpp_params \<Rightarrow> real list list M" where
  "mpp_measure E cfg =
     bindM (next_acquisition E) (\<lambda>a.
     bindM (instrument_call (ConfigBuffer (buffer_points cfg)) (config_buffer_r a)) (\<lambda>_.
     bindM (instrument_call StartBuffer (start_buffer_r a)) (\<lambda>_.
     bindM (instrument_call WaitForBuffer (wait_for_buffer_r a)) (\<lambda>_.
     bindM (instrument_read ReadBuffer (buffer_data_r a)) (\<lambda>data.
     format_dataM data)))))"

text \<open>The summary of a window: column means for time, voltage and current, and for the
  power the mean of \<open>data.prod( axis = 1 )\<close>.\<close>

definition measure_datum :: "env \<Rightarrow> mpp_params \<Rightarrow> datum M" where
  "measure_datum E cfg =
     bindM (mpp_measure E cfg) (\<lambda>data.
     bindM (elements_index ''TIME'') (\<lambda>i_time.
     bindM (time_elapsed E) (\<lambda>te.
     bindM (elements_index ''VOLT'') (\<lambda>i_volt.
     bindM (elements_index ''CURR'') (\<lambda>i_curr.
       let m_time = column_mean i_time data;
           time = te - m_time;
           voltage = column_mean i_volt data;
           current = column_mean i_curr data;
           power = mean (row_products data)
       in bindM (log_event (Emit [time, voltage, current, power])) (\<lambda>_.
          returnM \<lparr>d_time = time, d_voltage = voltage, d_current = current, d_power = power\<rparr>))))))"

definition time_remaining :: "env \<Rightarrow> real \<Rightarrow> real \<Rightarrow> real M" where
  "time_remaining E start interval =
     bindM (time_time E) (\<lambda>now. returnM (interval - (now - start)))"

definition get_last_probe_time :: "real M" where
  "get_last_probe_time s =
     (case attr_last_probe_time s of
        None \<Rightarrow> raiseM (AttributeError ''_last_probe_time'') s
      | Some t \<Rightarrow> returnM t s)"

definition set_last_probe_time :: "real \<Rightarrow> unit M" where
  "set_last_probe_time t s = (Some (Inr ()), s\<lparr>attr_last_probe_time := Some t\<rparr>)"

text \<open>The loop of \<open>_baseline\<close>; the first argument bounds its iterations, the second
  is the bound handed to \<open>wait_for\<close>.\<close>

primrec baseline_loop :: "nat \<Rightarrow> nat \<Rightarrow> env \<Rightarrow> mpp_params \<Rightarrow> real list \<Rightarrow> real list M" where
  "baseline_loop 0 fuel E cfg powers = out_of_fuel"
| "baseline_loop (Suc n) fuel E cfg powers =
     bindM (time_time E) (\<lambda>now.
     bindM get_last_probe_time (\<lambda>last.
       if now - last < real_of_int (probe_interval cfg) then
         bindM (time_time E) (\<lambda>cycle_start.
         bindM (measure_datum E cfg) (\<lambda>datum.
         bindM (time_remaining E cycle_start (real_of_int (data_interval cfg))) (\<lambda>remaining.
         bindM (wait_for fuel E remaining 1) (\<lambda>_.
         baseline_loop n fuel E cfg (powers @ [d_power datum])))))
       else returnM powers))"

definition baseline :: "nat \<Rightarrow> env \<Rightarrow> mpp_params \<Rightarrow> (real \<times> real list) M" where
  "baseline fuel E cfg =
     bindM (\<lambda>s. case attr_last_probe_time s of
                   Some t \<Rightarrow> returnM () s
                 | None \<Rightarrow> bindM (time_time E) set_last_probe_time s) (\<lambda>_.
     bindM (baseline_loop fuel fuel E cfg []) (\<lambda>powers.
     bindM get_source_voltage (\<lambda>v.
     returnM (v, powers))))"

text \<open>The loop of \<open>_probe\<close> runs \<open>range( probe_points )\<close>: the first argument counts
  the iterations left.\<close>

primrec probe_loop :: "nat \<Rightarrow> nat \<Rightarrow> env \<Rightarrow> mpp_params \<Rightarrow> real list \<Rightarrow> real list M" where
  "probe_loop 0 fuel E cfg powers = returnM powers"
| "probe_loop (Suc i) fuel E cfg powers =
     bindM (time_time E) (\<lambda>cycle_start.
     bindM (measure_datum E cfg) (\<lambda>datum.
     bindM (time_remaining E cycle_start (real_of_int (data_interval cfg))) (\<lambda>remaining.
     bindM (wait_for fuel E remaining 1) (\<lambda>_.
     probe_loop i fuel E cfg (powers @ [d_power datum])))))"

definition probe :: "nat \<Rightarrow> env \<Rightarrow> mpp_params \<Rightarrow> int \<Rightarrow> (real \<times> real list) M" where
  "probe fuel E cfg direction =
     bindM get_source_voltage (\<lambda>v.
     bindM (set_source_voltage (v + real_of_int direction * probe_step cfg)) (\<lambda>_.
     bindM (probe_loop (nat (probe_points cfg)) fuel E cfg []) (\<lambda>powers.
     bindM (time_time E) (\<lambda>now.
     bindM (set_last_probe_time now) (\<lambda>_.
     bindM get_source_voltage (\<lambda>v'.
     returnM (v', powers)))))))"

definition better_voltage :: "mpp_params \<Rightarrow> real \<times> real list \<Rightarrow> real \<times> real list \<Rightarrow> real" where
  "better_voltage cfg d1 d2 =
     (let (v1, p1) = d1;
          (v2, p2) = d2;
          num_points = min (probe_points cfg) (min (int (length p1)) (int (length p2)));
          m1 = sum_list (slice_from (- num_points) p1);
          m2 = sum_list (slice_from (- num_points) p2);
          m1' = (if \<not> power_production_mode cfg then m1 * (- 1) else m1);
          m2' = (if \<not> power_production_mode cfg then m2 * (- 1) else m2)
      in if m1' > m2' then v1 else v2)"

text \<open>The decision at the end of one pass of the loop of \<open>execute\<close>: the new
  \<open>probe_direction\<close> is returned, and the source voltage is reset when the baseline
  voltage is the better one.\<close>

definition decide :: "mpp_params \<Rightarrow> real \<times> real list \<Rightarrow> real \<times> real list \<Rightarrow> int \<Rightarrow> int M" where
  "decide cfg baseline_data probe_data probe_direction =
     (let better = better_voltage cfg baseline_data probe_data;
          baseline_voltage = fst baseline_data
      in if better = baseline_voltage
         then bindM (set_source_voltage baseline_voltage) (\<lambda>_. returnM (probe_direction * (- 1)))
         else returnM probe_direction)"

primrec execute_loop :: "nat \<Rightarrow> nat \<Rightarrow> env \<Rightarrow> mpp_params \<Rightarrow> int \<Rightarrow> unit M" where
  "execute_loop 0 fuel E cfg probe_direction = out_of_fuel"
| "execute_loop (Suc n) fuel E cfg probe_direction =
     bindM (mpp_progress E cfg) (\<lambda>p.
       if p < 1 then
         bindM (baseline fuel E cfg) (\<lambda>baseline_data.
         bindM (probe fuel E cfg probe_direction) (\<lambda>probe_data.
         bindM (decide cfg baseline_data probe_data probe_direction) (\<lambda>probe_direction'.
         execute_loop n fuel E cfg probe_direction')))
       else returnM ())"

definition mpp_execute :: "nat \<Rightarrow> env \<Rightarrow> mpp_params \<Rightarrow> unit M" where
  "mpp_execute fuel E cfg =
     bindM (time_time E) (\<lambda>now.
     bindM (\<lambda>s. (Some (Inr ()), s\<lparr>attr_start_time := Some now\<rparr>)) (\<lambda>_.
     bindM (\<lambda>s. case start_time s of
                   None \<Rightarrow> raiseM (TypeError ''unsupported operand type(s) for +'') s
                 | Some t0 \<Rightarrow> (Some (Inr ()), s\<lparr>attr_end_time := Some (t0 + 60 * run_time cfg)\<rparr>)) (\<lambda>_.
     bindM (instrument_call EnableSource None) (\<lambda>_.
     bindM (set_source_voltage (initial_voltage cfg)) (\<lambda>_.
     execute_loop fuel fuel E cfg 1)))))"

text \<open>The decision as the specification words it: the sums of the last
  \<open>min(probe_points, |p1|, |p2|)\<close> elements of each series, negated outside
  power-production mode, the probe voltage on a tie.\<close>

definition last_n :: "nat \<Rightarrow> 'a list \<Rightarrow> 'a list" where
  "last_n n xs = drop (length xs - n) xs"

definition better_voltage_spec :: "mpp_params \<Rightarrow> real \<times> real list \<Rightarrow> real \<times> real list \<Rightarrow> real" where
  "better_voltage_spec cfg d1 d2 =
     (let n = nat (min (probe_points cfg) (min (int (length (snd d1))) (int (length (snd d2)))));
          b = sum_list (last_n n (snd d1));
          p = sum_list (last_n n (snd d2));
          b' = (if power_production_mode cfg then b else - b);
          p' = (if power_production_mode cfg then p else - p)
      in if p' \<ge> b' then fst d2 else fst d1)"

section \<open>Voc\_Procedure\<close>

record voc_params = base_params +
  std_threshold :: real
  threshold_points :: int
  voc_data_interval :: real
  max_time :: int
  compliance_voltage :: real
  voc_buffer_points :: int

record voc_datum =
  v_time :: real
  v_voltage :: real
  v_current :: real

text \<open>The two ways \<open>Voc_Procedure.execute\<close> ends without an exception: the
  \<open>return\<close> inside the loop, and the loop condition turning false.\<close>

datatype voc_exit = Settled | TimedOut

definition voc_progress :: "env \<Rightarrow> voc_params \<Rightarrow> real M" where
  "voc_progress E cfg s =
     (case start_time s of
        None \<Rightarrow> returnM 0 s
      | Some t0 \<Rightarrow>
          bindM (time_elapsed E) (\<lambda>te.
            if max_time cfg = 0 then raiseM ZeroDivisionError
            else returnM (min (te / real_of_int (max_time cfg)) 1)) s)"

definition voc_startup :: "env \<Rightarrow> voc_params \<Rightarrow> unit M" where
  "voc_startup E cfg =
     bindM (startup cfg) (\<lambda>_.
     bindM (instrument_call MeasureVoltage None) (\<lambda>_.
     bindM (instrument_call (ApplyCurrent (compliance_voltage cfg)) None) (\<lambda>_.
     bindM (instrument_call (SetSourceCurrent 0) None) (\<lambda>_.
     bindM (set_elements E [''time'', ''voltage'', ''current'']) (\<lambda>_.
     time_sleep (1 / 10))))))"

text \<open>\<open>_get_data\<close>: the three buffer commands run inside \<open>try\<close>; the handler shuts
  the instrument down and falls through to the read of \<open>buffer_data\<close>.\<close>

definition voc_get_data :: "env \<Rightarrow> voc_params \<Rightarrow> real list M" where
  "voc_get_data E cfg =
     bindM (next_acquisition E) (\<lambda>a.
     bindM (try_except
              (bindM (instrument_call (ConfigBuffer (voc_buffer_points cfg)) (config_buffer_r a)) (\<lambda>_.
               bindM (instrument_call StartBuffer (start_buffer_r a)) (\<lambda>_.
               instrument_call WaitForBuffer (wait_for_buffer_r a))))
              (\<lambda>err. shutdown)) (\<lambda>_.
     instrument_read ReadBuffer (buffer_data_r a)))"

definition voc_measure :: "env \<Rightarrow> voc_params \<Rightarrow> voc_datum M" where
  "voc_measure E cfg =
     bindM (voc_get_data E cfg) (\<lambda>raw.
     bindM (format_dataM raw) (\<lambda>data.
     bindM (elements_index ''TIME'') (\<lambda>i_time.
     bindM (time_elapsed E) (\<lambda>te.
     bindM (elements_index ''VOLT'') (\<lambda>i_volt.
     bindM (elements_index ''CURR'') (\<lambda>i_curr.
       let m_time = column_mean i_time data;
           time = te - m_time;
           voltage = column_mean i_volt data;
           current = column_mean i_curr data
       in bindM (log_event (Emit [time, voltage, current])) (\<lambda>_.
          returnM \<lparr>v_time = time, v_voltage = voltage, v_current = current\<rparr>)))))))"

text \<open>
  \<open>_extract_voltage\<close> is declared \<open>@staticmethod\<close> with the two parameters
  \<open>self\<close> and \<open>data\<close>. A static method receives exactly the arguments of the call, so
  \<open>self._extract_voltage( data )\<close> passes one argument for two parameters.
\<close>

definition extract_voltage :: "voc_datum list \<Rightarrow> voc_datum list \<Rightarrow> real list" where
  "extract_voltage self data = map v_voltage data"

definition call_static2 :: "('a \<Rightarrow> 'a \<Rightarrow> 'b) \<Rightarrow> 'a list \<Rightarrow> error + 'b" where
  "call_static2 f args =
     (case args of
        [a, b] \<Rightarrow> Inr (f a b)
      | _ \<Rightarrow> Inl (TypeError ''missing or surplus positional argument''))"

definition settled :: "voc_params \<Rightarrow> voc_datum list \<Rightarrow> bool M" where
  "settled cfg data =
     bindM (liftE (call_static2 extract_voltage [data])) (\<lambda>voltage.
     returnM (std voltage \<le> std_threshold cfg))"

text \<open>The window update of one tick: append the sample, then prune with
  \<open>data[ : -threshold_points ]\<close> when the window is longer than \<open>threshold_points\<close>.\<close>

definition append_prune :: "voc_params \<Rightarrow> 'a list \<Rightarrow> 'a \<Rightarrow> 'a list" where
  "append_prune cfg data datum =
     (let data1 = data @ [datum]
      in if int (length data1) > threshold_points cfg
         then slice_to (- threshold_points cfg) data1
         else data1)"

primrec voc_loop :: "nat \<Rightarrow> nat \<Rightarrow> env \<Rightarrow> voc_params \<Rightarrow> voc_datum list \<Rightarrow> voc_exit M" where
  "voc_loop 0 fuel E cfg data = out_of_fuel"
| "voc_loop (Suc n) fuel E cfg data =
     bindM (voc_progress E cfg) (\<lambda>p.
       if p < 1 then
         bindM (voc_measure E cfg) (\<lambda>datum.
           let data' = append_prune cfg data datum
           in bindM (if int (length data') \<ge> threshold_points cfg
                     then settled cfg data' else returnM False) (\<lambda>is_settled.
              if is_settled then returnM Settled
              else
                bindM (wait_for fuel E (voc_data_interval cfg) (voc_data_interval cfg / 5)) (\<lambda>_.
                voc_loop n fuel E cfg data')))
       else returnM TimedOut)"

definition voc_execute :: "nat \<Rightarrow> env \<Rightarrow> voc_params \<Rightarrow> voc_exit M" where
  "voc_execute fuel E cfg =
     bindM (time_time E) (\<lambda>now.
     bindM (\<lambda>s. (Some (Inr ()), s\<lparr>attr_start_time := Some now\<rparr>)) (\<lambda>_.
     bindM (\<lambda>s. case start_time s of
                   None \<Rightarrow> raiseM (TypeError ''unsupported operand type(s) for +'') s
                 | Some t0 \<Rightarrow> (Some (Inr ()), s\<lparr>attr_end_time := Some (t0 + real_of_int (max_time cfg))\<rparr>)) (\<lambda>_.
     bindM (instrument_call EnableSource None) (\<lambda>_.
     voc_loop fuel fuel E cfg []))))"

text \<open>A procedure object on which neither \<open>startup\<close> nor \<open>execute\<close> has run: no
  attribute is set. The instrument register and the counters of the environment are
  those of the surroundings.\<close>

definition new_procedure :: "real \<Rightarrow> nat \<Rightarrow> nat \<Rightarrow> nat \<Rightarrow> event list \<Rightarrow> state" where
  "new_procedure v nt ns na tr =
     \<lparr>attr_instrument = None, attr_elements = None, attr_start_time = None,
      attr_end_time = None, attr_last_probe_time = None, source_voltage = v,
      time_calls = nt, stop_calls = ns, acq_calls = na, trace = tr\<rparr>"

section \<open>Concrete parameters and environments\<close>

text \<open>The defaults of the parameter declarations, with the port of \<open>main\<close>.\<close>

definition mpp_default :: mpp_params where
  "mpp_default =
     \<lparr>port = Some ''GPIB0::24'', use_front_terminals = True,
      run_time = 60, probe_step = 1 / 100, voltage_range = 2, compliance_current = 5 / 100,
      initial_voltage = 0, buffer_points = 10, probe_points = 3, probe_interval = 60,
      data_interval = 10, power_production_mode = False\<rparr>"

definition voc_default :: voc_params where
  "voc_default =
     \<lparr>port = Some ''GPIB0::24'', use_front_terminals = True,
      std_threshold = 1 / 100, threshold_points = 5, voc_data_interval = 1 / 10,
      max_time = 10, compliance_voltage = 2, voc_buffer_points = 10\<rparr>"

text \<open>An acquisition on which every command succeeds and the buffer holds the given
  flat sequence.\<close>

definition good_acq :: "real list \<Rightarrow> acquisition" where
  "good_acq buf =
     \<lparr>config_buffer_r = None, start_buffer_r = None, wait_for_buffer_r = None,
      buffer_data_r = Inr buf\<rparr>"

text \<open>An environment whose clock advances by 50 ms per reading, where nobody asks to
  stop, the instrument names its elements \<open>VOLT,CURR,TIME\<close> and every acquisition
  succeeds with the same buffer.\<close>

definition steady_env :: "real list \<Rightarrow> env" where
  "steady_env buf =
     \<lparr>clock = (\<lambda>n. real n / 20), stop_signal = (\<lambda>n. False),
      acquisitions = (\<lambda>n. good_acq buf), elements_reply = ''VOLT,CURR,TIME''\<rparr>"

text \<open>A procedure after \<open>startup\<close>: the instrument is connected and the elements are
  stored.\<close>

definition started :: state where
  "started =
     (new_procedure 0 0 0 0 [])
       \<lparr>attr_instrument := Some ''GPIB0::24'',
        attr_elements := Some [''VOLT'', ''CURR'', ''TIME'']\<rparr>"

text \<open>The power of a window as the specification words it: the mean over the rows of
  voltage times current.\<close>

definition power_spec :: "nat \<Rightarrow> nat \<Rightarrow> real list list \<Rightarrow> real" where
  "power_spec i_volt i_curr data = mean (map (\<lambda>row. row ! i_volt * row ! i_curr) data)"

text \<open>An environment in which the measured voltage alternates between 0 V and 1 V.\<close>

definition noisy_env :: env where
  "noisy_env =
     \<lparr>clock = (\<lambda>n. real n / 20), stop_signal = (\<lambda>n. False),
      acquisitions = (\<lambda>n. good_acq [if even n then 0 else 1, 0, 1 / 100]),
      elements_reply = ''VOLT,CURR,TIME''\<rparr>"

text \<open>An environment in which the second poll of the stop signal, and every later one,
  answers that the user asked to stop.\<close>

definition stop_env :: "real list \<Rightarrow> env" where
  "stop_env buf = (steady_env buf)\<lparr>stop_signal := (\<lambda>n. n \<ge> 1)\<rparr>"

text \<open>Environments in which \<open>config_buffer\<close> fails with a timeout of the
  instrument on every acquisition while the buffer can still be read; in the second one
  the clock advances by one second per reading.\<close>

definition failing_env :: env where
  "failing_env =
     (steady_env [2, 3, 10])
       \<lparr>acquisitions :=
          (\<lambda>n. (good_acq [2, 3, 10])\<lparr>config_buffer_r := Some (InstrumentError ''timeout'')\<rparr>)\<rparr>"

definition slow_failing_env :: env where
  "slow_failing_env =
     \<lparr>clock = (\<lambda>n. real n), stop_signal = (\<lambda>n. False),
      acquisitions =
        (\<lambda>n. (good_acq [62 / 100, 0, 1 / 100])
                 \<lparr>config_buffer_r := Some (InstrumentError ''timeout'')\<rparr>),
      elements_reply = ''VOLT,CURR,TIME''\<rparr>"

section \<open>The window of the Voc detector after each tick\<close>

text \<open>
  The loop of \<open>Voc_Procedure.execute\<close> once more, step for step, with a history beside
  its outcome: for every tick the loop performs (a sample acquired, appended and the
  window pruned), the pair of all the samples acquired so far and of the window after
  the tick. The second list argument holds all the samples acquired before the call.
\<close>

primrec voc_loop_h :: "nat \<Rightarrow> nat \<Rightarrow> env \<Rightarrow> voc_params \<Rightarrow> voc_datum list \<Rightarrow> voc_datum list \<Rightarrow> state
    \<Rightarrow> ((error + voc_exit) option \<times> state) \<times> (voc_datum list \<times> voc_datum list) list" where
  "voc_loop_h 0 fuel E cfg acquired data s = (out_of_fuel s, [])"
| "voc_loop_h (Suc n) fuel E cfg acquired data s =
     (case voc_progress E cfg s of
        (Some (Inr p), s1) \<Rightarrow>
          if p < 1 then
            (case voc_measure E cfg s1 of
               (Some (Inr datum), s2) \<Rightarrow>
                 (let data' = append_prune cfg data datum;
                      acquired' = acquired @ [datum]
                  in case (if int (length data') \<ge> threshold_points cfg
                           then settled cfg data' else returnM False) s2 of
                       (Some (Inr is_settled), s3) \<Rightarrow>
                         if is_settled then (returnM Settled s3, [(acquired', data')])
                         else
                           (case wait_for fuel E (voc_data_interval cfg) (voc_data_interval cfg / 5) s3 of
                              (Some (Inr u), s4) \<Rightarrow>
                                (fst (voc_loop_h n fuel E cfg acquired' data' s4),
                                 (acquired', data') # snd (voc_loop_h n fuel E cfg acquired' data' s4))
                            | (Some (Inl e), s4) \<Rightarrow> ((Some (Inl e), s4), [(acquired', data')])
                            | (None, s4) \<Rightarrow> ((None, s4), [(acquired', data')]))
                     | (Some (Inl e), s3) \<Rightarrow> ((Some (Inl e), s3), [(acquired', data')])
                     | (None, s3) \<Rightarrow> ((None, s3), [(acquired', data')]))
             | (Some (Inl e), s2) \<Rightarrow> ((Some (Inl e), s2), [])
             | (None, s2) \<Rightarrow> ((None, s2), []))
          else (returnM TimedOut s1, [])
      | (Some (Inl e), s1) \<Rightarrow> ((Some (Inl e), s1), [])
      | (None, s1) \<Rightarrow> ((None, s1), []))"

text \<open>A window is as the specification describes it when it holds the most recent
  \<open>threshold_points\<close> of the acquired samples, all of them when there are fewer.\<close>

definition window_ok :: "voc_params \<Rightarrow> voc_datum list \<times> voc_datum list \<Rightarrow> bool" where
  "window_ok cfg aw =
     (snd aw = last_n (nat (threshold_points cfg)) (fst aw) \<and>
      int (length (snd aw)) \<le> threshold_points cfg)"

section \<open>Cancellation: the notions of the statement\<close>

text \<open>
  A state is \<open>stopped\<close> once a poll of the stop signal has been answered positively.
  A run is \<open>cancelled\<close> when it has ended with the error of \<open>wait_for\<close> and the last
  two events of its trace are the positive poll and the shutdown of the instrument, with
  no positive poll before. A method is \<open>quiet\<close> when it never polls and keeps the
  instrument attribute; it is \<open>stop_safe\<close> when it keeps the instrument attribute and,
  started with an instrument in a state that is not stopped, can only reach a stopped
  state as a cancelled run.
\<close>

definition stopped :: "state \<Rightarrow> bool" where
  "stopped s = (ShouldStop True \<in> set (trace s))"

definition cancelled :: "(error + 'a) option \<times> state \<Rightarrow> bool" where
  "cancelled rs =
     (fst rs = Some (Inl (RuntimeError ''Procedure stopped by user.'')) \<and>
      (\<exists>pre. trace (snd rs) = pre @ [ShouldStop True, InstrumentShutdown] \<and>
             ShouldStop True \<notin> set pre))"

definition quiet :: "'a M \<Rightarrow> bool" where
  "quiet m = (\<forall>s. attr_instrument (snd (m s)) = attr_instrument s \<and>
                   stopped (snd (m s)) = stopped s)"

definition stop_safe :: "'a M \<Rightarrow> bool" where
  "stop_safe m =
     (\<forall>s. attr_instrument (snd (m s)) = attr_instrument s \<and>
          (attr_instrument s \<noteq> None \<longrightarrow> \<not> stopped s \<longrightarrow> stopped (snd (m s)) \<longrightarrow> cancelled (m s)))"

section \<open>Properties of the formatter\<close>

lemma concat_reshape_take:
  "concat (reshape k cols xs) = take (k * cols) xs"
proof (induction k)
  case 0
  show ?case by (simp add: reshape_def)
next
  case (Suc k)
  have "concat (reshape (Suc k) cols xs)
        = concat (reshape k cols xs) @ take cols (drop (k * cols) xs)"
    by (simp add: reshape_def)
  also have "\<dots> = take (k * cols) xs @ take cols (drop (k * cols) xs)"
    using Suc.IH by simp
  also have "\<dots> = take (k * cols + cols) xs"
    by (simp add: take_add)
  finally show ?case by (simp add: add.commute)
qed

lemma length_reshape: "length (reshape k cols xs) = k"
  by (simp add: reshape_def)

lemma reshape_row_length:
  assumes "length xs = k * cols" and "row \<in> set (reshape k cols xs)"
  shows "length row = cols"
proof -
  from assms(2) obtain i where i: "i < k" and row: "row = take cols (drop (i * cols) xs)"
    by (auto simp: reshape_def)
  from i have "Suc i \<le> k" by simp
  then have "Suc i * cols \<le> k * cols" by (rule mult_le_mono1)
  then have "cols \<le> length xs - i * cols" using assms(1) by simp
  then show ?thesis using row by simp
qed

text \<open>The element list stored by \<open>set_elements\<close> has at least one entry.\<close>

lemma split_comma_nonempty: "split_comma s \<noteq> []"
  by (induction s) (auto split: list.split)

lemma set_elements_nonempty:
  assumes "set_elements E elms s = (Some (Inr ()), s')"
  shows "\<exists>els. elements s' = Some els \<and> els \<noteq> []"
  using assms
  by (auto simp: set_elements_def bindM_def get_elements_def instrument_call_def
      instrument_read_def log_event_def returnM_def raiseM_def liftE_def elements_def
      split_comma_nonempty split: if_splits option.splits sum.splits prod.splits)

text \<open>
  C3. For a flat sequence whose length is \<open>k\<close> times the number of elements,
  \<open>format_data\<close> returns an array of \<open>k\<close> rows, each as wide as the element list, whose
  row-major flattening is the input; for a length that the number of elements does not
  divide it raises the \<open>ValueError\<close> of the integrity check. The element list is the one
  stored by \<open>set_elements\<close>, which is never empty.
\<close>

theorem format_data_reshape_roundtrip:
  assumes "els \<noteq> []"
  shows "(length data = k * length els \<longrightarrow>
            (\<exists>rows. format_data (Some els) data = Inr rows \<and> length rows = k \<and>
               (\<forall>row \<in> set rows. length row = length els) \<and> concat rows = data)) \<and>
         (\<not> length els dvd length data \<longrightarrow>
            format_data (Some els) data =
              Inl (ValueError ''Invalid data length. Data is not divisible by number of elements.''))"
proof (intro conjI impI)
  assume len: "length data = k * length els"
  from assms have pos: "0 < length els" by simp
  from len pos have dv: "length data div length els = k" by simp
  from len have md: "length data mod length els = 0" by simp
  have fd: "format_data (Some els) data = Inr (reshape k (length els) data)"
    using pos md dv by (simp add: format_data_def)
  have "concat (reshape k (length els) data) = data"
    using len by (simp add: concat_reshape_take)
  moreover have "\<forall>row \<in> set (reshape k (length els) data). length row = length els"
    using reshape_row_length [OF len] by blast
  ultimately show "\<exists>rows. format_data (Some els) data = Inr rows \<and> length rows = k \<and>
      (\<forall>row \<in> set rows. length row = length els) \<and> concat rows = data"
    using fd by (simp add: length_reshape)
next
  assume nd: "\<not> length els dvd length data"
  then have "length data mod length els \<noteq> 0" by (simp add: dvd_eq_mod_eq_0)
  moreover from assms have "length els \<noteq> 0" by simp
  ultimately show "format_data (Some els) data =
      Inl (ValueError ''Invalid data length. Data is not divisible by number of elements.'')"
    by (simp add: format_data_def)
qed

theorem format_data_reshape_roundtrip_witness:
  "[''VOLT'', ''CURR''] \<noteq> ([] :: string list) \<and>
   format_data (Some [''VOLT'', ''CURR'']) [1, 2, 3, 4] = Inr [[1, 2], [3, 4]] \<and>
   concat [[1, 2], [3, 4 :: real]] = [1, 2, 3, 4] \<and>
   format_data (Some [''VOLT'', ''CURR'']) [1, 2, 3] =
     Inl (ValueError ''Invalid data length. Data is not divisible by number of elements.'')"
proof -
  have ne: "[''VOLT'', ''CURR''] \<noteq> ([] :: string list)" by simp
  have a: "length [1, 2, 3, 4 :: real] = 2 * length [''VOLT'', ''CURR'']" by simp
  have l2: "length [''VOLT'', ''CURR''] = (2::nat)" by simp
  have l3: "length [1, 2, 3 :: real] = (3::nat)" by simp
  have b: "\<not> length [''VOLT'', ''CURR''] dvd length [1, 2, 3 :: real]"
    unfolding l2 l3 by presburger
  note t1 = format_data_reshape_roundtrip [OF ne, of "[1, 2, 3, 4]" 2]
  note t2 = format_data_reshape_roundtrip [OF ne, of "[1, 2, 3]" 0]
  from t1 a obtain rows where r: "format_data (Some [''VOLT'', ''CURR'']) [1, 2, 3, 4] = Inr rows"
    by blast
  have ev: "format_data (Some [''VOLT'', ''CURR'']) [1, 2, 3, 4] = Inr [[1, 2], [3, 4]]"
    by code_simp
  from t2 b have "format_data (Some [''VOLT'', ''CURR'']) [1, 2, 3] =
     Inl (ValueError ''Invalid data length. Data is not divisible by number of elements.'')"
    by blast
  with ne ev show ?thesis by simp
qed

section \<open>Properties of the JV step and of the Voc rounding\<close>

text \<open>
  C6. For a non-zero step and distinct start and end voltages, the step programmed by
  the JV controller has the sign of \<open>end_voltage - start_voltage\<close>, and it is the
  negated step exactly when the sign of the given step differs from that of the sweep
  direction (the given step otherwise).
\<close>

theorem effective_step_sign:
  assumes "voltage_step \<noteq> 0" and "start_voltage \<noteq> end_voltage"
  shows "sgn (effective_step start_voltage end_voltage voltage_step)
           = sgn (end_voltage - start_voltage) \<and>
         (effective_step start_voltage end_voltage voltage_step = - voltage_step
            \<longleftrightarrow> sgn voltage_step \<noteq> sgn (end_voltage - start_voltage)) \<and>
         (effective_step start_voltage end_voltage voltage_step = voltage_step
            \<longleftrightarrow> sgn voltage_step = sgn (end_voltage - start_voltage))"
proof -
  consider (up_pos) "start_voltage < end_voltage" "voltage_step > 0"
    | (up_neg) "start_voltage < end_voltage" "voltage_step < 0"
    | (down_pos) "start_voltage > end_voltage" "voltage_step > 0"
    | (down_neg) "start_voltage > end_voltage" "voltage_step < 0"
    using assms by linarith
  then show ?thesis
  proof cases
    case up_pos
    then show ?thesis by (simp add: effective_step_def)
  next
    case up_neg
    then show ?thesis by (simp add: effective_step_def)
  next
    case down_pos
    then show ?thesis by (simp add: effective_step_def)
  next
    case down_neg
    then show ?thesis by (simp add: effective_step_def)
  qed
qed

theorem effective_step_sign_witness:
  "(1 / 100 :: real) \<noteq> 0 \<and> (1 :: real) \<noteq> 0 \<and>
   effective_step 1 0 (1 / 100) = - (1 / 100) \<and>
   sgn (effective_step 1 0 (1 / 100)) = sgn (0 - 1 :: real)"
proof -
  have h1: "(1 / 100 :: real) \<noteq> 0" by simp
  have h2: "(1 :: real) \<noteq> 0" by simp
  from effective_step_sign [OF h1 h2]
  have "sgn (effective_step 1 0 (1 / 100)) = sgn (0 - 1 :: real)" by blast
  moreover have "effective_step 1 0 (1 / 100) = - (1 / 100)"
    by (simp add: effective_step_def)
  ultimately show ?thesis using h1 h2 by blast
qed

text \<open>A measured Voc of 0.62 V with a step of 0.01 V is not moved to 0.63 V.\<close>

theorem round_end_voc_not_063:
  "round_end_voc (62 / 100) (1 / 100) \<noteq> Inr (63 / 100)"
  by (simp add: round_end_voc_def)

text \<open>
  C9, amended. Over exact rationals, for a measured Voc of 0.62 V and a step of 0.01 V
  the rounding \<open>ceil(voc / step) * step\<close> gives 0.62 V, since 0.62 V is exactly 62
  steps; for a measured Voc of 0.621 V and the same step it gives 0.63 V.
\<close>

theorem round_end_voc_062:
  "round_end_voc (62 / 100) (1 / 100) = Inr (62 / 100) \<and>
   round_end_voc (621 / 1000) (1 / 100) = Inr (63 / 100)"
  by (simp add: round_end_voc_def ceiling_eq_iff)

section \<open>Properties of the perturb-and-observe decision\<close>

lemma slice_from_neg_last_n:
  assumes "1 \<le> n" and "n \<le> int (length xs)"
  shows "slice_from (- n) xs = last_n (nat n) xs"
proof -
  from assms have "nat (max 0 (int (length xs) + - n)) = length xs - nat n" by simp
  with assms show ?thesis by (simp add: slice_from_def last_n_def Let_def)
qed

text \<open>With at least one point to compare, the decision of the code is the decision the
  specification describes.\<close>

lemma better_voltage_agrees:
  assumes "1 \<le> min (probe_points cfg) (min (int (length p1)) (int (length p2)))"
  shows "better_voltage cfg (v1, p1) (v2, p2) = better_voltage_spec cfg (v1, p1) (v2, p2)"
proof -
  let ?n = "min (probe_points cfg) (min (int (length p1)) (int (length p2)))"
  have n1: "?n \<le> int (length p1)" and n2: "?n \<le> int (length p2)" by simp_all
  have s1: "slice_from (- ?n) p1 = last_n (nat ?n) p1"
    using assms n1 by (rule slice_from_neg_last_n)
  have s2: "slice_from (- ?n) p2 = last_n (nat ?n) p2"
    using assms n2 by (rule slice_from_neg_last_n)
  show ?thesis
    unfolding better_voltage_def better_voltage_spec_def Let_def prod.case fst_conv snd_conv s1 s2
    by (simp add: not_less)
qed

lemma decide_direction:
  assumes "instrument s = Some i"
  shows "fst (decide cfg (v1, p1) d2 dir s) =
           Some (Inr (if better_voltage cfg (v1, p1) d2 = v1 then - dir else dir))"
  using assms
  by (simp add: decide_def Let_def bindM_def set_source_voltage_def returnM_def)

text \<open>
  C1. The decision compares the sums of the last \<open>min(probe_points, |p1|, |p2|)\<close>
  elements of the two series and takes the probe on a tie. With \<open>probe_points = 0\<close>
  that is a tie of two empty sums, so the probe voltage 0.51 V; the code slices with
  \<open>p[ -0: ]\<close>, which is the whole series, finds 1 > 0, selects the baseline voltage
  0.5 V, resets the source to it and flips the direction.
\<close>

theorem better_voltage_zero_points:
  "better_voltage (mpp_default\<lparr>probe_points := 0, power_production_mode := True\<rparr>)
      (1 / 2, [1]) (51 / 100, []) = 1 / 2 \<and>
   better_voltage_spec (mpp_default\<lparr>probe_points := 0, power_production_mode := True\<rparr>)
      (1 / 2, [1]) (51 / 100, []) = 51 / 100 \<and>
   fst (decide (mpp_default\<lparr>probe_points := 0, power_production_mode := True\<rparr>)
      (1 / 2, [1]) (51 / 100, []) 1 (started\<lparr>source_voltage := 51 / 100\<rparr>)) = Some (Inr (- 1)) \<and>
   source_voltage (snd (decide (mpp_default\<lparr>probe_points := 0, power_production_mode := True\<rparr>)
      (1 / 2, [1]) (51 / 100, []) 1 (started\<lparr>source_voltage := 51 / 100\<rparr>))) = 1 / 2"
  by (simp add: better_voltage_def better_voltage_spec_def mpp_default_def slice_from_def
      last_n_def decide_def bindM_def set_source_voltage_def returnM_def instrument_def
      started_def new_procedure_def)

section \<open>Properties of the window summary\<close>

text \<open>On rows of two entries, voltage and current, the product over the row is the
  power of the row.\<close>

lemma two_column_power:
  assumes "\<forall>row \<in> set data. length row = 2"
  shows "mean (row_products data) = power_spec 0 1 data"
proof -
  have "prod_list row = row ! 0 * row ! 1" if "row \<in> set data" for row
  proof -
    from that assms have "length row = 2" by blast
    then obtain a b where "row = [a, b]"
      by (cases row; cases "tl row") (auto simp: numeral_2_eq_2)
    then show ?thesis by simp
  qed
  then have "map prod_list data = map (\<lambda>row. row ! 0 * row ! 1) data"
    by (intro map_cong refl)
  then show ?thesis by (simp only: row_products_def power_spec_def)
qed

text \<open>
  C2. The power of a window is the mean over the rows of voltage times current. After
  \<open>startup\<close> the rows carry three elements, time among them, and \<open>data.prod( axis = 1 )\<close>
  multiplies all three: for the rows (2 V, 3 A, 10 s) and (4 V, 5 A, 20 s) the code
  reports (60 + 400) / 2 = 230 where the mean of voltage times current is 13.
\<close>

theorem measure_datum_power_with_time:
  "fst (bindM (mpp_startup (steady_env [2, 3, 10, 4, 5, 20]) (mpp_default\<lparr>buffer_points := 2\<rparr>))
          (\<lambda>_. measure_datum (steady_env [2, 3, 10, 4, 5, 20]) (mpp_default\<lparr>buffer_points := 2\<rparr>))
          (new_procedure 0 0 0 0 []))
     = Some (Inr \<lparr>d_time = - 15, d_voltage = 3, d_current = 4, d_power = 230\<rparr>) \<and>
   power_spec 0 1 [[2, 3, 10], [4, 5, 20]] = 13"
proof
  show "fst (bindM (mpp_startup (steady_env [2, 3, 10, 4, 5, 20]) (mpp_default\<lparr>buffer_points := 2\<rparr>))
          (\<lambda>_. measure_datum (steady_env [2, 3, 10, 4, 5, 20]) (mpp_default\<lparr>buffer_points := 2\<rparr>))
          (new_procedure 0 0 0 0 []))
     = Some (Inr \<lparr>d_time = - 15, d_voltage = 3, d_current = 4, d_power = 230\<rparr>)"
    by code_simp
  show "power_spec 0 1 [[2, 3, 10], [4, 5, 20]] = 13"
    by (simp add: power_spec_def mean_def)
qed

section \<open>Properties of the Voc settling detector\<close>

text \<open>The call of \<open>_extract_voltage\<close> inside \<open>_settled\<close> raises for every window.\<close>

lemma settled_raises [code]:
  "settled cfg data s = (Some (Inl (TypeError ''missing or surplus positional argument'')), s)"
  by (simp add: settled_def bindM_def liftE_def call_static2_def raiseM_def)

text \<open>
  C4. A window of \<open>threshold_points\<close> samples whose standard deviation is at or below
  the threshold ends the detector in the settled state, and a window that never settles
  ends it in the timed-out state when \<open>max_time\<close> has elapsed. With the default
  parameters and five samples of a constant 0.62 V (standard deviation 0) the run does
  not end settled: the fifth tick calls \<open>_settled\<close>, which raises \<open>TypeError\<close>. With a
  voltage alternating between 0 V and 1 V the run does not go on until the 10 s of
  \<open>max_time\<close>: it raises the same error at the fifth tick, after less than 2 s.
\<close>

theorem voc_execute_raises_type_error:
  "fst (bindM (voc_startup (steady_env [62 / 100, 0, 1 / 100]) (voc_default\<lparr>voc_buffer_points := 1\<rparr>))
          (\<lambda>_. voc_execute 10 (steady_env [62 / 100, 0, 1 / 100]) (voc_default\<lparr>voc_buffer_points := 1\<rparr>))
          (new_procedure 0 0 0 0 []))
     = Some (Inl (TypeError ''missing or surplus positional argument'')) \<and>
   fst (bindM (voc_startup noisy_env (voc_default\<lparr>voc_buffer_points := 1\<rparr>))
          (\<lambda>_. voc_execute 10 noisy_env (voc_default\<lparr>voc_buffer_points := 1\<rparr>))
          (new_procedure 0 0 0 0 []))
     = Some (Inl (TypeError ''missing or surplus positional argument''))"
proof
  show "fst (bindM (voc_startup (steady_env [62 / 100, 0, 1 / 100]) (voc_default\<lparr>voc_buffer_points := 1\<rparr>))
          (\<lambda>_. voc_execute 10 (steady_env [62 / 100, 0, 1 / 100]) (voc_default\<lparr>voc_buffer_points := 1\<rparr>))
          (new_procedure 0 0 0 0 []))
     = Some (Inl (TypeError ''missing or surplus positional argument''))"
    by code_simp
  show "fst (bindM (voc_startup noisy_env (voc_default\<lparr>voc_buffer_points := 1\<rparr>))
          (\<lambda>_. voc_execute 10 noisy_env (voc_default\<lparr>voc_buffer_points := 1\<rparr>))
          (new_procedure 0 0 0 0 []))
     = Some (Inl (TypeError ''missing or surplus positional argument''))"
    by code_simp
qed

section \<open>Properties of the Voc window\<close>

text \<open>The loop with the history has the outcome and the final state of the loop of
  \<open>execute\<close>.\<close>

lemma voc_loop_h_erase: "fst (voc_loop_h n fuel E cfg acquired data s) = voc_loop n fuel E cfg data s"
proof (induction n arbitrary: acquired data s)
  case 0
  show ?case by simp
next
  case (Suc n)
  show ?case
    by (simp add: bindM_def Let_def Suc.IH split: prod.split option.split sum.split)
qed


lemma append_prune_tick:
  assumes tp: "0 \<le> threshold_points cfg"
    and J: "int (length data) < threshold_points cfg \<or> data = []"
  shows "append_prune cfg data datum = last_n (nat (threshold_points cfg)) (data @ [datum])"
    and "int (length (append_prune cfg data datum)) \<le> threshold_points cfg"
    and "int (length (append_prune cfg data datum)) < threshold_points cfg
           \<Longrightarrow> append_prune cfg data datum = data @ [datum]"
proof -
  show "append_prune cfg data datum = last_n (nat (threshold_points cfg)) (data @ [datum])"
  proof (cases "int (length data) < threshold_points cfg")
    case True
    then show ?thesis by (simp add: append_prune_def last_n_def Let_def)
  next
    case False
    with J tp have "data = []" by blast
    with False tp have "threshold_points cfg = 0" by simp
    with \<open>data = []\<close> show ?thesis by (simp add: append_prune_def last_n_def slice_to_def Let_def)
  qed
  then show "int (length (append_prune cfg data datum)) \<le> threshold_points cfg"
    using tp by (simp add: last_n_def)
  show "append_prune cfg data datum = data @ [datum]"
    if lt: "int (length (append_prune cfg data datum)) < threshold_points cfg"
  proof (cases "int (length data) < threshold_points cfg")
    case True
    then show ?thesis by (simp add: append_prune_def Let_def)
  next
    case False
    with J tp have "data = []" by blast
    with False tp have "threshold_points cfg = 0" by simp
    with lt show ?thesis by simp
  qed
qed

lemma voc_loop_h_windows:
  assumes tp: "0 \<le> threshold_points cfg"
    and J: "int (length data) < threshold_points cfg \<or> data = []"
    and same: "data = acquired"
  shows "\<forall>aw \<in> set (snd (voc_loop_h n fuel E cfg acquired data s)). window_ok cfg aw"
  using J same
proof (induction n arbitrary: acquired data s)
  case 0
  show ?case by simp
next
  case (Suc n)
  obtain r1 s1 where p: "voc_progress E cfg s = (r1, s1)" by (cases "voc_progress E cfg s")
  show ?case
  proof (cases "\<exists>pv. r1 = Some (Inr pv) \<and> pv < 1")
    case False
    then show ?thesis using p by (auto split: option.split sum.split)
  next
    case True
    then obtain pv where r1: "r1 = Some (Inr pv)" and pv: "pv < 1" by blast
    obtain r2 s2 where m: "voc_measure E cfg s1 = (r2, s2)" by (cases "voc_measure E cfg s1")
    show ?thesis
    proof (cases "\<exists>datum. r2 = Some (Inr datum)")
      case False
      then show ?thesis using p r1 pv m by (auto split: option.split sum.split)
    next
      case True
      then obtain datum where r2: "r2 = Some (Inr datum)" by blast
      define data' where "data' = append_prune cfg data datum"
      define acquired' where "acquired' = acquired @ [datum]"
      note tick = append_prune_tick [OF tp Suc.prems(1), of datum]
      have ok: "window_ok cfg (acquired', data')"
        using tick(1,2) Suc.prems(2) by (simp add: window_ok_def data'_def acquired'_def)
      show ?thesis
      proof (cases "threshold_points cfg \<le> int (length data')")
        case True
        then have "snd (voc_loop_h (Suc n) fuel E cfg acquired data s) = [(acquired', data')]"
          using p r1 pv m r2
          by (simp add: Let_def data'_def [symmetric] acquired'_def [symmetric] settled_raises)
        with ok show ?thesis by simp
      next
        case False
        then have lt: "int (length data') < threshold_points cfg" by simp
        with tick(3) have d: "data' = data @ [datum]" by (simp add: data'_def)
        with Suc.prems(2) have same': "data' = acquired'" by (simp add: acquired'_def)
        from lt have J': "int (length data') < threshold_points cfg \<or> data' = []" by simp
        note IH = Suc.IH [OF J' same']
        obtain r4 s4 where w: "wait_for fuel E (voc_data_interval cfg) (voc_data_interval cfg / 5) s2 = (r4, s4)"
          by (cases "wait_for fuel E (voc_data_interval cfg) (voc_data_interval cfg / 5) s2")
        have "set (snd (voc_loop_h (Suc n) fuel E cfg acquired data s))
                \<subseteq> insert (acquired', data') (set (snd (voc_loop_h n fuel E cfg acquired' data' s4)))"
          using p r1 pv m r2 False w
          by (auto simp: Let_def data'_def [symmetric] acquired'_def [symmetric] returnM_def
              split: option.split sum.split)
        with ok IH [of s4] show ?thesis by blast
      qed
    qed
  qed
qed



text \<open>
  The prune alone, applied to a window that already holds \<open>threshold_points\<close> samples,
  keeps the oldest samples and not the newest. With \<open>threshold_points\<close> of one or more
  no run gets there: the tick that fills the window calls \<open>_settled\<close>, which raises.
\<close>

lemma append_prune_keeps_oldest:
  assumes "0 < threshold_points cfg" and "int (length data) + 1 > threshold_points cfg"
  shows "append_prune cfg data datum
           = take (length data + 1 - nat (threshold_points cfg)) (data @ [datum])"
proof -
  have n: "nat (1 + int (length data) - threshold_points cfg)
          = Suc (length data) - nat (threshold_points cfg)"
    using assms by arith
  show ?thesis using assms
    by (simp add: append_prune_def slice_to_def Let_def n)
qed

lemma append_prune_on_full_window:
  "append_prune voc_default [1, 2, 3, 4, 5 :: nat] 6 = [1] \<and>
   last_n 5 ([1, 2, 3, 4, 5 :: nat] @ [6]) = [2, 3, 4, 5, 6]"
  by (simp add: append_prune_def voc_default_def slice_to_def last_n_def)

section \<open>Properties of a procedure that has not been started\<close>

text \<open>
  C10. On a procedure object on which neither \<open>startup\<close> nor \<open>execute\<close> has run, the
  accessors \<open>instrument\<close>, \<open>elements\<close>, \<open>start_time\<close> and \<open>end_time\<close> give \<open>None\<close>,
  \<open>time_elapsed\<close> and \<open>progress\<close> return 0 without reading the clock, and \<open>shutdown\<close>
  returns normally with the state, and so the trace of instrument calls, unchanged.
\<close>

theorem fresh_procedure_accessors:
  "instrument (new_procedure v nt ns na tr) = None \<and>
   elements (new_procedure v nt ns na tr) = None \<and>
   start_time (new_procedure v nt ns na tr) = None \<and>
   end_time (new_procedure v nt ns na tr) = None \<and>
   time_elapsed E (new_procedure v nt ns na tr) = (Some (Inr 0), new_procedure v nt ns na tr) \<and>
   mpp_progress E cfg (new_procedure v nt ns na tr) = (Some (Inr 0), new_procedure v nt ns na tr) \<and>
   voc_progress E vcfg (new_procedure v nt ns na tr) = (Some (Inr 0), new_procedure v nt ns na tr) \<and>
   shutdown (new_procedure v nt ns na tr) = (Some (Inr ()), new_procedure v nt ns na tr)"
  by (simp add: instrument_def elements_def start_time_def end_time_def time_elapsed_def
      mpp_progress_def voc_progress_def shutdown_def returnM_def new_procedure_def)

section \<open>Properties of a failing buffer acquisition\<close>

text \<open>
  C7. A failure raised during a buffer acquisition propagates to the caller of the
  measurement phase after an attempted shutdown of the instrument, and no component
  catches it and goes on with the run. In the Voc procedure, when \<open>config_buffer\<close> fails
  with a timeout, \<open>_get_data\<close> catches the error, shuts the instrument down, reads the
  buffer all the same and returns its data. With that failure on every acquisition the
  run goes on: three times the failing command, the shutdown, the read and an emitted
  sample, and the run ends by its time limit with no error at all. In the MPP procedure
  the same failure does reach the caller of \<open>_measure\<close>, but the failing command is the
  only call made on the instrument: no shutdown has been attempted.
\<close>

theorem buffer_failure_not_propagated:
  "voc_get_data failing_env voc_default started =
     (Some (Inr [2, 3, 10]),
      started\<lparr>acq_calls := 1, trace := [ConfigBuffer 10, InstrumentShutdown, ReadBuffer]\<rparr>) \<and>
   fst (voc_execute 10 slow_failing_env (voc_default\<lparr>voc_buffer_points := 1\<rparr>) started)
     = Some (Inr TimedOut) \<and>
   trace (snd (voc_execute 10 slow_failing_env (voc_default\<lparr>voc_buffer_points := 1\<rparr>) started))
     = [EnableSource,
        ConfigBuffer 1, InstrumentShutdown, ReadBuffer, Emit [199 / 100, 62 / 100, 0],
        ConfigBuffer 1, InstrumentShutdown, ReadBuffer, Emit [599 / 100, 62 / 100, 0],
        ConfigBuffer 1, InstrumentShutdown, ReadBuffer, Emit [999 / 100, 62 / 100, 0]] \<and>
   mpp_measure failing_env mpp_default started =
     (Some (Inl (InstrumentError ''timeout'')),
      started\<lparr>acq_calls := 1, trace := [ConfigBuffer 10]\<rparr>)"
proof (intro conjI)
  show "voc_get_data failing_env voc_default started =
     (Some (Inr [2, 3, 10]),
      started\<lparr>acq_calls := 1, trace := [ConfigBuffer 10, InstrumentShutdown, ReadBuffer]\<rparr>)"
    by code_simp
  show "fst (voc_execute 10 slow_failing_env (voc_default\<lparr>voc_buffer_points := 1\<rparr>) started)
     = Some (Inr TimedOut)"
    by code_simp
  show "trace (snd (voc_execute 10 slow_failing_env (voc_default\<lparr>voc_buffer_points := 1\<rparr>) started))
     = [EnableSource,
        ConfigBuffer 1, InstrumentShutdown, ReadBuffer, Emit [199 / 100, 62 / 100, 0],
        ConfigBuffer 1, InstrumentShutdown, ReadBuffer, Emit [599 / 100, 62 / 100, 0],
        ConfigBuffer 1, InstrumentShutdown, ReadBuffer, Emit [999 / 100, 62 / 100, 0]]"
    by code_simp
  show "mpp_measure failing_env mpp_default started =
     (Some (Inl (InstrumentError ''timeout'')),
      started\<lparr>acq_calls := 1, trace := [ConfigBuffer 10]\<rparr>)"
    by code_simp
qed

section \<open>Properties of the cooperative wait\<close>

lemma quiet_stop_safe: "quiet m \<Longrightarrow> stop_safe m"
  by (simp add: quiet_def stop_safe_def)

lemma quietD:
  assumes "quiet m"
  shows "attr_instrument (snd (m s)) = attr_instrument s" and "stopped (snd (m s)) = stopped s"
  using assms by (simp_all add: quiet_def)

lemma quiet_returnM: "quiet (returnM a)"
  by (simp add: quiet_def returnM_def)

lemma quiet_raiseM: "quiet (raiseM e)"
  by (simp add: quiet_def raiseM_def)

lemma quiet_out_of_fuel: "quiet out_of_fuel"
  by (simp add: quiet_def out_of_fuel_def)

lemma quiet_liftE: "quiet (liftE r)"
  by (cases r) (simp_all add: liftE_def quiet_returnM quiet_raiseM)

lemma quiet_bindM:
  assumes "quiet m" and "\<And>a. quiet (f a)"
  shows "quiet (bindM m f)"
proof -
  have "attr_instrument (snd (bindM m f s)) = attr_instrument s \<and>
        stopped (snd (bindM m f s)) = stopped s" for s
  proof (cases "m s")
    case (Pair r s1)
    from Pair have s1: "attr_instrument s1 = attr_instrument s" "stopped s1 = stopped s"
      using quietD [OF assms(1), of s] by simp_all
    show ?thesis
    proof (cases r)
      case None
      with Pair s1 show ?thesis by (simp add: bindM_def)
    next
      case (Some x)
      show ?thesis
      proof (cases x)
        case (Inl e)
        with Some Pair s1 show ?thesis by (simp add: bindM_def)
      next
        case (Inr a)
        from assms(2) [of a] have "attr_instrument (snd (f a s1)) = attr_instrument s1"
          "stopped (snd (f a s1)) = stopped s1" by (simp_all add: quiet_def)
        with Inr Some Pair s1 show ?thesis by (simp add: bindM_def)
      qed
    qed
  qed
  then show ?thesis by (simp add: quiet_def)
qed

lemma quiet_try_except:
  assumes "quiet m" and "\<And>e. quiet (h e)"
  shows "quiet (try_except m h)"
proof -
  have "attr_instrument (snd (try_except m h s)) = attr_instrument s \<and>
        stopped (snd (try_except m h s)) = stopped s" for s
  proof (cases "m s")
    case (Pair r s1)
    from Pair have s1: "attr_instrument s1 = attr_instrument s" "stopped s1 = stopped s"
      using quietD [OF assms(1), of s] by simp_all
    show ?thesis
    proof (cases r)
      case None
      with Pair s1 show ?thesis by (simp add: try_except_def)
    next
      case (Some x)
      show ?thesis
      proof (cases x)
        case (Inr a)
        with Some Pair s1 show ?thesis by (simp add: try_except_def)
      next
        case (Inl e)
        from assms(2) [of e] have "attr_instrument (snd (h e s1)) = attr_instrument s1"
          "stopped (snd (h e s1)) = stopped s1" by (simp_all add: quiet_def)
        with Inl Some Pair s1 show ?thesis by (simp add: try_except_def)
      qed
    qed
  qed
  then show ?thesis by (simp add: quiet_def)
qed

lemma quiet_log_event: "ev \<noteq> ShouldStop True \<Longrightarrow> quiet (log_event ev)"
  by (auto simp: quiet_def log_event_def stopped_def)

lemma quiet_time_time: "quiet (time_time E)"
  by (simp add: quiet_def time_time_def stopped_def)

lemma quiet_time_sleep: "quiet (time_sleep d)"
  by (simp add: time_sleep_def quiet_raiseM quiet_log_event)

lemma quiet_next_acquisition: "quiet (next_acquisition E)"
  by (simp add: quiet_def next_acquisition_def stopped_def)

text \<open>A method that chooses between quiet methods by looking at the state is quiet.\<close>

lemma quiet_by_state:
  assumes "\<And>s. \<exists>m'. quiet m' \<and> m s = m' s"
  shows "quiet m"
proof -
  have "attr_instrument (snd (m s)) = attr_instrument s \<and> stopped (snd (m s)) = stopped s" for s
  proof -
    from assms [of s] obtain m' where "quiet m'" "m s = m' s" by blast
    then show ?thesis by (simp add: quiet_def)
  qed
  then show ?thesis by (simp add: quiet_def)
qed

lemma quiet_instrument_call: "ev \<noteq> ShouldStop True \<Longrightarrow> quiet (instrument_call ev r)"
proof (rule quiet_by_state)
  fix s assume ev: "ev \<noteq> ShouldStop True"
  show "\<exists>m'. quiet m' \<and> instrument_call ev r s = m' s"
  proof (cases "instrument s")
    case None
    then have "instrument_call ev r s = raiseM (AttributeError ''NoneType object has no attribute'') s"
      by (simp add: instrument_call_def)
    then show ?thesis using quiet_raiseM by blast
  next
    case (Some i)
    then have "instrument_call ev r s =
        bindM (log_event ev) (\<lambda>_. case r of None \<Rightarrow> returnM () | Some e \<Rightarrow> raiseM e) s"
      by (simp add: instrument_call_def)
    moreover have "quiet (bindM (log_event ev) (\<lambda>_. case r of None \<Rightarrow> returnM () | Some e \<Rightarrow> raiseM e))"
      using ev by (intro quiet_bindM quiet_log_event) (simp_all add: quiet_returnM quiet_raiseM split: option.split)
    ultimately show ?thesis by blast
  qed
qed


lemma quietI:
  assumes "\<And>s. attr_instrument (snd (m s)) = attr_instrument s \<and> stopped (snd (m s)) = stopped s"
  shows "quiet m"
  using assms by (simp add: quiet_def)

lemmas quiet_basic = quiet_returnM quiet_raiseM quiet_out_of_fuel quiet_liftE quiet_bindM
  quiet_try_except quiet_log_event quiet_time_time quiet_time_sleep quiet_next_acquisition
  quiet_instrument_call

lemma quiet_instrument_read: "ev \<noteq> ShouldStop True \<Longrightarrow> quiet (instrument_read ev r)"
  by (rule quietI) (simp add: instrument_read_def quietD quiet_basic split: option.split)

lemma quiet_get_source_voltage: "quiet get_source_voltage"
  by (rule quietI) (simp add: get_source_voltage_def quietD quiet_basic split: option.split)

lemma quiet_set_source_voltage: "quiet (set_source_voltage v)"
  by (rule quietI)
     (simp add: set_source_voltage_def raiseM_def stopped_def split: option.split)

lemma quiet_shutdown: "quiet shutdown"
  by (rule quietI) (simp add: shutdown_def quietD quiet_basic split: option.split)

lemma quiet_format_dataM: "quiet (format_dataM data)"
  by (rule quietI) (simp add: format_dataM_def quietD quiet_basic)

lemma quiet_elements_index: "quiet (elements_index name)"
  by (rule quietI) (simp add: elements_index_def quietD quiet_basic split: option.split)

lemma quiet_time_elapsed: "quiet (time_elapsed E)"
  by (rule quietI) (simp add: time_elapsed_def quietD quiet_basic split: option.split)

lemma quiet_mpp_progress: "quiet (mpp_progress E cfg)"
  by (rule quietI)
     (simp add: mpp_progress_def quietD quiet_basic quiet_time_elapsed split: option.split)

lemma quiet_voc_progress: "quiet (voc_progress E cfg)"
  by (rule quietI)
     (simp add: voc_progress_def quietD quiet_basic quiet_time_elapsed split: option.split)

lemma quiet_get_last_probe_time: "quiet get_last_probe_time"
  by (rule quietI) (simp add: get_last_probe_time_def quietD quiet_basic split: option.split)

lemma quiet_set_last_probe_time: "quiet (set_last_probe_time t)"
  by (rule quietI) (simp add: set_last_probe_time_def stopped_def)

lemma quiet_time_remaining: "quiet (time_remaining E start interval)"
  by (simp add: time_remaining_def quiet_basic)

lemma quiet_mpp_measure: "quiet (mpp_measure E cfg)"
  unfolding mpp_measure_def
  by (intro quiet_bindM quiet_next_acquisition quiet_instrument_call quiet_instrument_read
      quiet_format_dataM) simp_all

lemma quiet_measure_datum: "quiet (measure_datum E cfg)"
  unfolding measure_datum_def Let_def
  by (intro quiet_bindM quiet_mpp_measure quiet_elements_index quiet_time_elapsed
      quiet_log_event quiet_returnM) simp_all

lemma quiet_decide: "quiet (decide cfg b p dir)"
  unfolding decide_def Let_def
  by (simp add: quiet_basic quiet_set_source_voltage)

lemma quiet_voc_get_data: "quiet (voc_get_data E cfg)"
  unfolding voc_get_data_def
  by (intro quiet_bindM quiet_try_except quiet_next_acquisition quiet_instrument_call
      quiet_instrument_read quiet_shutdown) simp_all

lemma quiet_voc_measure: "quiet (voc_measure E cfg)"
  unfolding voc_measure_def Let_def
  by (intro quiet_bindM quiet_voc_get_data quiet_format_dataM quiet_elements_index
      quiet_time_elapsed quiet_log_event quiet_returnM) simp_all

lemma quiet_settled: "quiet (settled cfg data)"
  unfolding settled_def by (intro quiet_bindM quiet_liftE quiet_returnM)


lemma stop_safeI:
  assumes "\<And>s. attr_instrument (snd (m s)) = attr_instrument s"
    and "\<And>s. attr_instrument s \<noteq> None \<Longrightarrow> \<not> stopped s \<Longrightarrow> stopped (snd (m s)) \<Longrightarrow> cancelled (m s)"
  shows "stop_safe m"
  using assms by (simp add: stop_safe_def)

lemma stop_safe_instrument:
  assumes "stop_safe m"
  shows "attr_instrument (snd (m s)) = attr_instrument s"
  using assms by (simp add: stop_safe_def)

lemma stop_safe_cancelled:
  assumes "stop_safe m" and "attr_instrument s \<noteq> None" and "\<not> stopped s"
    and "stopped (snd (m s))"
  shows "cancelled (m s)"
  using assms by (simp add: stop_safe_def)

lemma stop_safe_bindM:
  assumes m: "stop_safe m" and f: "\<And>a. stop_safe (f a)"
  shows "stop_safe (bindM m f)"
proof (rule stop_safeI)
  fix s
  obtain r s1 where ms: "m s = (r, s1)" by (cases "m s")
  from stop_safe_instrument [OF m, of s] ms
  have i1: "attr_instrument s1 = attr_instrument s" by simp
  show "attr_instrument (snd (bindM m f s)) = attr_instrument s"
  proof (cases r)
    case None
    with ms i1 show ?thesis by (simp add: bindM_def)
  next
    case (Some x)
    show ?thesis
    proof (cases x)
      case (Inl e)
      with Some ms i1 show ?thesis by (simp add: bindM_def)
    next
      case (Inr a)
      with Some ms have "bindM m f s = f a s1" by (simp add: bindM_def)
      with stop_safe_instrument [OF f, of a s1] i1 show ?thesis by simp
    qed
  qed
  assume inst: "attr_instrument s \<noteq> None" and ns: "\<not> stopped s"
    and st: "stopped (snd (bindM m f s))"
  show "cancelled (bindM m f s)"
  proof (cases "stopped s1")
    case True
    with stop_safe_cancelled [OF m inst ns] ms have c: "cancelled (r, s1)" by simp
    then have r: "r = Some (Inl (RuntimeError ''Procedure stopped by user.''))"
      by (simp add: cancelled_def)
    with ms have "bindM m f s = (Some (Inl (RuntimeError ''Procedure stopped by user.'')), s1)"
      by (simp add: bindM_def)
    with c show ?thesis by (simp add: cancelled_def)
  next
    case False
    show ?thesis
    proof (cases r)
      case None
      with ms have "bindM m f s = (None, s1)" by (simp add: bindM_def)
      with st False show ?thesis by simp
    next
      case (Some x)
      show ?thesis
      proof (cases x)
        case (Inl e)
        with Some ms have "bindM m f s = (Some (Inl e), s1)" by (simp add: bindM_def)
        with st False show ?thesis by simp
      next
        case (Inr a)
        with Some ms have eq: "bindM m f s = f a s1" by (simp add: bindM_def)
        from inst i1 have "attr_instrument s1 \<noteq> None" by simp
        from stop_safe_cancelled [OF f this False] st eq show ?thesis by simp
      qed
    qed
  qed
qed

text \<open>One poll of the stop signal, as \<open>wait_for\<close> makes it: on a positive answer the
  instrument is shut down and the error is raised; otherwise the wait goes on.\<close>

lemma stop_safe_poll:
  assumes k: "stop_safe k"
  shows "stop_safe (bindM (should_stop E) (\<lambda>stop.
           if stop then bindM shutdown (\<lambda>_. raiseM (RuntimeError ''Procedure stopped by user.''))
           else k))"
    (is "stop_safe ?poll")
proof (rule stop_safeI)
  fix s :: state
  define b where "b = stop_signal E (stop_calls s)"
  define s1 where "s1 = s\<lparr>stop_calls := Suc (stop_calls s), trace := trace s @ [ShouldStop b]\<rparr>"
  have i1: "attr_instrument s1 = attr_instrument s" by (simp add: s1_def)
  have t1: "trace s1 = trace s @ [ShouldStop b]" by (simp add: s1_def)
  have step: "?poll s =
      (if b then bindM shutdown (\<lambda>_. raiseM (RuntimeError ''Procedure stopped by user.'')) s1
       else k s1)"
    by (simp add: bindM_def should_stop_def Let_def b_def s1_def)
  have down_some: "bindM shutdown (\<lambda>_. raiseM (RuntimeError ''Procedure stopped by user.'')) s1
      = (Some (Inl (RuntimeError ''Procedure stopped by user.'')),
         s1\<lparr>trace := trace s1 @ [InstrumentShutdown]\<rparr>)"
    if "attr_instrument s \<noteq> None"
    using that i1
    by (auto simp: bindM_def shutdown_def instrument_def log_event_def raiseM_def
        split: option.split)
  have down_inst: "attr_instrument (snd (bindM shutdown
      (\<lambda>_. raiseM (RuntimeError ''Procedure stopped by user.'')) s1)) = attr_instrument s"
    using i1
    by (auto simp: bindM_def shutdown_def instrument_def log_event_def raiseM_def returnM_def
        split: option.split)
  show "attr_instrument (snd (?poll s)) = attr_instrument s"
    using step down_inst stop_safe_instrument [OF k, of s1] i1 by (cases b) simp_all
  assume inst: "attr_instrument s \<noteq> None" and ns: "\<not> stopped s"
    and st: "stopped (snd (?poll s))"
  show "cancelled (?poll s)"
  proof (cases b)
    case True
    with step down_some [OF inst]
    have "?poll s = (Some (Inl (RuntimeError ''Procedure stopped by user.'')),
         s1\<lparr>trace := trace s1 @ [InstrumentShutdown]\<rparr>)" by simp
    moreover have "trace s1 @ [InstrumentShutdown] = trace s @ [ShouldStop True, InstrumentShutdown]"
      using t1 True by simp
    moreover have "ShouldStop True \<notin> set (trace s)" using ns by (simp add: stopped_def)
    ultimately show ?thesis by (simp add: cancelled_def)
  next
    case False
    with step have eq: "?poll s = k s1" by simp
    from False t1 ns have ns1: "\<not> stopped s1" by (simp add: stopped_def)
    from inst i1 have "attr_instrument s1 \<noteq> None" by simp
    from stop_safe_cancelled [OF k this ns1] st eq show ?thesis by simp
  qed
qed

lemma stop_safe_wait_loop: "stop_safe (wait_loop n E end_t interval)"
proof (induction n)
  case 0
  show ?case by (simp add: quiet_stop_safe quiet_out_of_fuel)
next
  case (Suc n)
  have body: "stop_safe (bindM (time_sleep interval) (\<lambda>_. wait_loop n E end_t interval))"
    by (intro stop_safe_bindM quiet_stop_safe quiet_time_sleep Suc.IH)
  show ?case
    unfolding wait_loop.simps
  proof (rule stop_safe_bindM)
    show "stop_safe (time_time E)" by (rule quiet_stop_safe) (rule quiet_time_time)
  next
    fix now
    show "stop_safe (if now < end_t
        then bindM (should_stop E) (\<lambda>stop.
           if stop then bindM shutdown (\<lambda>_. raiseM (RuntimeError ''Procedure stopped by user.''))
           else bindM (time_sleep interval) (\<lambda>_. wait_loop n E end_t interval))
        else returnM ())"
      using stop_safe_poll [OF body] by (simp add: quiet_stop_safe quiet_returnM)
  qed
qed

lemma stop_safe_wait_for: "stop_safe (wait_for fuel E seconds interval)"
  unfolding wait_for_def
  by (intro stop_safe_bindM quiet_stop_safe quiet_time_time stop_safe_wait_loop)


lemma stop_safe_cycle:
  assumes rest: "\<And>datum. stop_safe (k datum)"
  shows "stop_safe (bindM (time_time E) (\<lambda>cycle_start.
           bindM (measure_datum E cfg) (\<lambda>datum.
           bindM (time_remaining E cycle_start (real_of_int (data_interval cfg))) (\<lambda>remaining.
           bindM (wait_for fuel E remaining 1) (\<lambda>_. k datum)))))"
  by (intro stop_safe_bindM quiet_stop_safe quiet_time_time quiet_measure_datum
      quiet_time_remaining stop_safe_wait_for rest)

lemma stop_safe_baseline_loop: "stop_safe (baseline_loop n fuel E cfg powers)"
proof (induction n arbitrary: powers)
  case 0
  show ?case by (simp add: quiet_stop_safe quiet_out_of_fuel)
next
  case (Suc n)
  have body: "stop_safe (if now - last < real_of_int (probe_interval cfg)
       then bindM (time_time E) (\<lambda>cycle_start.
           bindM (measure_datum E cfg) (\<lambda>datum.
           bindM (time_remaining E cycle_start (real_of_int (data_interval cfg))) (\<lambda>remaining.
           bindM (wait_for fuel E remaining 1) (\<lambda>_.
           baseline_loop n fuel E cfg (powers @ [d_power datum])))))
       else returnM powers)" for now last
    using stop_safe_cycle [of "\<lambda>datum. baseline_loop n fuel E cfg (powers @ [d_power datum])", OF Suc.IH]
    by (simp add: quiet_stop_safe quiet_returnM)
  show ?case
    unfolding baseline_loop.simps
    by (intro stop_safe_bindM body quiet_stop_safe [OF quiet_time_time]
        quiet_stop_safe [OF quiet_get_last_probe_time])
qed

lemma quiet_init_last_probe_time:
  "quiet (\<lambda>s. case attr_last_probe_time s of
                 Some t \<Rightarrow> returnM () s
               | None \<Rightarrow> bindM (time_time E) set_last_probe_time s)"
  by (rule quietI)
     (simp add: quietD quiet_basic quiet_set_last_probe_time split: option.split)

lemma stop_safe_baseline: "stop_safe (baseline fuel E cfg)"
  unfolding baseline_def
  by (intro stop_safe_bindM stop_safe_baseline_loop quiet_stop_safe
      quiet_init_last_probe_time quiet_get_source_voltage quiet_returnM)

lemma stop_safe_probe_loop: "stop_safe (probe_loop i fuel E cfg powers)"
proof (induction i arbitrary: powers)
  case 0
  show ?case by (simp add: quiet_stop_safe quiet_returnM)
next
  case (Suc i)
  show ?case
    unfolding probe_loop.simps
    by (rule stop_safe_cycle) (rule Suc.IH)
qed

lemma stop_safe_probe: "stop_safe (probe fuel E cfg direction)"
  unfolding probe_def
  by (intro stop_safe_bindM stop_safe_probe_loop quiet_stop_safe quiet_get_source_voltage
      quiet_set_source_voltage quiet_time_time quiet_set_last_probe_time quiet_returnM)

lemma stop_safe_execute_loop: "stop_safe (execute_loop n fuel E cfg dir)"
proof (induction n arbitrary: dir)
  case 0
  show ?case by (simp add: quiet_stop_safe quiet_out_of_fuel)
next
  case (Suc n)
  have pass: "stop_safe (bindM (baseline fuel E cfg) (\<lambda>baseline_data.
         bindM (probe fuel E cfg dir) (\<lambda>probe_data.
         bindM (decide cfg baseline_data probe_data dir) (\<lambda>dir'.
         execute_loop n fuel E cfg dir'))))"
    by (intro stop_safe_bindM stop_safe_baseline stop_safe_probe
        quiet_stop_safe [OF quiet_decide] Suc.IH)
  have body: "stop_safe (if p < 1
        then bindM (baseline fuel E cfg) (\<lambda>baseline_data.
         bindM (probe fuel E cfg dir) (\<lambda>probe_data.
         bindM (decide cfg baseline_data probe_data dir) (\<lambda>dir'.
         execute_loop n fuel E cfg dir')))
        else returnM ())" for p :: real
    using pass by (simp add: quiet_stop_safe quiet_returnM)
  show ?case
    unfolding execute_loop.simps
    by (intro stop_safe_bindM body quiet_stop_safe [OF quiet_mpp_progress])
qed

lemma quiet_set_start_time: "quiet (\<lambda>s. (Some (Inr ()), s\<lparr>attr_start_time := Some now\<rparr>))"
  by (rule quietI) (simp add: stopped_def)

lemma quiet_set_end_time:
  "quiet (\<lambda>s. case start_time s of
                 None \<Rightarrow> raiseM (TypeError ''unsupported operand type(s) for +'') s
               | Some t0 \<Rightarrow> (Some (Inr ()), s\<lparr>attr_end_time := Some (t0 + d)\<rparr>))"
  by (rule quietI) (simp add: raiseM_def stopped_def split: option.split)

lemma stop_safe_mpp_execute: "stop_safe (mpp_execute fuel E cfg)"
  unfolding mpp_execute_def
  by (intro stop_safe_bindM stop_safe_execute_loop quiet_stop_safe quiet_time_time
      quiet_set_start_time quiet_set_end_time quiet_instrument_call quiet_set_source_voltage)
     simp

lemma stop_safe_voc_loop: "stop_safe (voc_loop n fuel E cfg data)"
proof (induction n arbitrary: data)
  case 0
  show ?case by (simp add: quiet_stop_safe quiet_out_of_fuel)
next
  case (Suc n)
  have check: "stop_safe (if threshold_points cfg \<le> int (length (append_prune cfg data datum))
        then settled cfg (append_prune cfg data datum) else returnM False)" for datum
    by (simp add: quiet_stop_safe quiet_settled quiet_returnM)
  have go_on: "stop_safe (if is_settled then returnM Settled
        else bindM (wait_for fuel E (voc_data_interval cfg) (voc_data_interval cfg / 5))
          (\<lambda>_. voc_loop n fuel E cfg (append_prune cfg data datum)))" for datum is_settled
    using stop_safe_bindM [OF stop_safe_wait_for,
        of "\<lambda>_. voc_loop n fuel E cfg (append_prune cfg data datum)", OF Suc.IH]
    by (simp add: quiet_stop_safe quiet_returnM)
  have tick: "stop_safe (bindM (voc_measure E cfg) (\<lambda>datum.
           let data' = append_prune cfg data datum
           in bindM (if int (length data') \<ge> threshold_points cfg
                     then settled cfg data' else returnM False) (\<lambda>is_settled.
              if is_settled then returnM Settled
              else
                bindM (wait_for fuel E (voc_data_interval cfg) (voc_data_interval cfg / 5)) (\<lambda>_.
                voc_loop n fuel E cfg data'))))"
    unfolding Let_def
    by (intro stop_safe_bindM check go_on quiet_stop_safe [OF quiet_voc_measure])
  have body: "stop_safe (if p < 1
        then bindM (voc_measure E cfg) (\<lambda>datum.
           let data' = append_prune cfg data datum
           in bindM (if int (length data') \<ge> threshold_points cfg
                     then settled cfg data' else returnM False) (\<lambda>is_settled.
              if is_settled then returnM Settled
              else
                bindM (wait_for fuel E (voc_data_interval cfg) (voc_data_interval cfg / 5)) (\<lambda>_.
                voc_loop n fuel E cfg data')))
        else returnM TimedOut)" for p :: real
    using tick by (simp add: quiet_stop_safe quiet_returnM)
  show ?case
    unfolding voc_loop.simps
    by (intro stop_safe_bindM body quiet_stop_safe [OF quiet_voc_progress])
qed

lemma stop_safe_voc_execute: "stop_safe (voc_execute fuel E cfg)"
  unfolding voc_execute_def
  by (intro stop_safe_bindM stop_safe_voc_loop quiet_stop_safe quiet_time_time
      quiet_set_start_time quiet_set_end_time quiet_instrument_call)
     simp

text \<open>
  C8. In a started procedure, whenever a poll of the stop signal inside \<open>wait_for\<close> is
  answered positively, the run ends as cancelled: the instrument is shut down right
  after the poll, the run terminates with the error \<open>Procedure stopped by user.\<close>, and
  nothing follows the shutdown in the trace, so that no measurement is made after the
  cancellation. This holds for \<open>wait_for\<close> itself and for the runs of the MPP and the
  Voc procedures, for every bound on the iterations of their loops.
\<close>

theorem cancellation_ends_run:
  assumes "attr_instrument s = Some i" and "\<not> stopped s"
  shows "(stopped (snd (wait_for fuel E seconds interval s))
            \<longrightarrow> cancelled (wait_for fuel E seconds interval s)) \<and>
         (stopped (snd (mpp_execute fuel E cfg s)) \<longrightarrow> cancelled (mpp_execute fuel E cfg s)) \<and>
         (stopped (snd (voc_execute fuel E vcfg s)) \<longrightarrow> cancelled (voc_execute fuel E vcfg s))"
proof -
  from assms(1) have inst: "attr_instrument s \<noteq> None" by simp
  show ?thesis
    using stop_safe_cancelled [OF stop_safe_wait_for inst assms(2)]
      stop_safe_cancelled [OF stop_safe_mpp_execute inst assms(2)]
      stop_safe_cancelled [OF stop_safe_voc_execute inst assms(2)]
    by blast
qed

theorem cancellation_ends_run_witness:
  "attr_instrument started = Some ''GPIB0::24'' \<and> \<not> stopped started \<and>
   stopped (snd (mpp_execute 3 (stop_env [2, 3, 10]) (mpp_default\<lparr>buffer_points := 1\<rparr>) started)) \<and>
   cancelled (mpp_execute 3 (stop_env [2, 3, 10]) (mpp_default\<lparr>buffer_points := 1\<rparr>) started)"
proof -
  have h1: "attr_instrument started = Some ''GPIB0::24''" by code_simp
  have h2: "\<not> stopped started" by code_simp
  have h3: "stopped (snd (mpp_execute 3 (stop_env [2, 3, 10]) (mpp_default\<lparr>buffer_points := 1\<rparr>) started))"
    by code_simp
  from cancellation_ends_run [OF h1 h2,
      where fuel = 3 and E = "stop_env [2, 3, 10]" and cfg = "mpp_default\<lparr>buffer_points := 1\<rparr>"] h3
  have "cancelled (mpp_execute 3 (stop_env [2, 3, 10]) (mpp_default\<lparr>buffer_points := 1\<rparr>) started)"
    by blast
  with h1 h2 h3 show ?thesis by blast
qed

end
